theory Spec2Isabelle
  imports Main
begin

section \<open>Rows of the remote tables (src/types/database.ts)\<close>

text \<open>
  The three interfaces \<^verbatim>\<open>Group\<close>, \<^verbatim>\<open>Subgroup\<close> and \<^verbatim>\<open>File\<close>. Every field is a
  string in the source. The fields \<^verbatim>\<open>id\<close>, \<^verbatim>\<open>name\<close>, \<^verbatim>\<open>user_id\<close> and \<^verbatim>\<open>created_at\<close>
  occur in all three interfaces, so each record prefixes them with the initial of its
  table (\<open>g_\<close>, \<open>s_\<close>, \<open>f_\<close>).
\<close>

record Group =
  g_id :: string
  g_name :: string
  g_user_id :: string
  g_created_at :: string

record Subgroup =
  s_id :: string
  s_name :: string
  s_group_id :: string
  s_user_id :: string
  s_created_at :: string

record File =
  f_id :: string
  f_name :: string
  f_link :: string
  f_subgroup_id :: string
  f_user_id :: string
  f_created_at :: string

section \<open>The local tree (Dashboard component)\<close>

text \<open>
  \<^verbatim>\<open>SubgroupWithDetails extends Subgroup\<close> with \<^verbatim>\<open>files\<close> and \<^verbatim>\<open>isExpanded\<close>;
  \<^verbatim>\<open>GroupWithDetails extends Group\<close> with \<^verbatim>\<open>subgroups\<close> and \<^verbatim>\<open>isExpanded\<close>. The
  flag of a subgroup is named \<open>s_isExpanded\<close> here, the flag of a group \<open>isExpanded\<close>.
\<close>

record SubgroupWithDetails = Subgroup +
  files :: "File list"
  s_isExpanded :: bool

record GroupWithDetails = Group +
  subgroups :: "SubgroupWithDetails list"
  isExpanded :: bool

text \<open>
  The object spreads \<^verbatim>\<open>{ ...subgroup, isExpanded: true, files: fs }\<close> and
  \<^verbatim>\<open>{ ...group, isExpanded: true, subgroups: ss }\<close>: the fields of the row are copied and
  the two view fields are set.
\<close>

definition subgroupWith :: "Subgroup \<Rightarrow> File list \<Rightarrow> bool \<Rightarrow> SubgroupWithDetails" where
  "subgroupWith s fs e =
     \<lparr>s_id = s_id s, s_name = s_name s, s_group_id = s_group_id s,
      s_user_id = s_user_id s, s_created_at = s_created_at s,
      files = fs, s_isExpanded = e\<rparr>"

definition groupWith :: "Group \<Rightarrow> SubgroupWithDetails list \<Rightarrow> bool \<Rightarrow> GroupWithDetails" where
  "groupWith g ss e =
     \<lparr>g_id = g_id g, g_name = g_name g, g_user_id = g_user_id g,
      g_created_at = g_created_at g,
      subgroups = ss, isExpanded = e\<rparr>"

text \<open>The component state: one field for each \<^verbatim>\<open>useState\<close> of the Dashboard.\<close>

record State =
  groups :: "GroupWithDetails list"
  newGroupName :: string
  selectedGroup :: "string option"
  selectedSubgroup :: "string option"
  newFileName :: string
  newFileLink :: string
  addingSubgroupTo :: "string option"
  newSubgroupName :: string
  isLoading :: bool
  error :: "string option"
  userId :: "string option"
  copiedLink :: "string option"
  isConnected :: bool

definition initialState :: State where
  "initialState =
     \<lparr>groups = [], newGroupName = [], selectedGroup = None, selectedSubgroup = None,
      newFileName = [], newFileLink = [], addingSubgroupTo = None, newSubgroupName = [],
      isLoading = True, error = None, userId = None, copiedLink = None,
      isConnected = True\<rparr>"

section \<open>JavaScript strings: truthiness and trim\<close>

text \<open>
  A string is falsy exactly when it is empty; a \<^verbatim>\<open>string | null\<close> is falsy when it is
  \<^verbatim>\<open>null\<close> or the empty string.
\<close>

definition truthy :: "string \<Rightarrow> bool" where
  "truthy s = (s \<noteq> [])"

definition truthyOpt :: "string option \<Rightarrow> bool" where
  "truthyOpt v = (case v of None \<Rightarrow> False | Some s \<Rightarrow> truthy s)"

text \<open>
  \<^verbatim>\<open>String.prototype.trim\<close> strips white space and line terminators from both ends.
  A \<open>char\<close> stands for a code unit below 256; among those the stripped ones are TAB, LF,
  VT, FF, CR, SPACE and NBSP. (The code units above 255 that \<^verbatim>\<open>trim\<close> also strips are
  outside this string type.)
\<close>

definition isWhiteSpace :: "char \<Rightarrow> bool" where
  "isWhiteSpace c = ((of_char c :: nat) \<in> {9, 10, 11, 12, 13, 32, 160})"

definition trim :: "string \<Rightarrow> string" where
  "trim s = rev (dropWhile isWhiteSpace (rev (dropWhile isWhiteSpace s)))"

section \<open>The remote data service\<close>

text \<open>
  The client SDK answers every call with \<^verbatim>\<open>{ data, error }\<close>; the handlers throw when
  \<^verbatim>\<open>error\<close> is set, and an exception of the call itself reaches the same \<^verbatim>\<open>catch\<close>.
  An answer is therefore \<open>Inl e\<close> (failure) or \<open>Inr data\<close>. The answers of the service
  and of \<^verbatim>\<open>checkConnection\<close> (imported from \<^verbatim>\<open>../lib/supabase\<close>) are parameters of the
  handlers. Every handler returns the remote calls it made, in order, and the new state.
  Toast notifications and console output are no part of the component state and are
  left out.
\<close>

datatype remote_error = RemoteError string

datatype request =
    Select string
  | Insert string "(string \<times> string option) list"
  | Delete string string
  | CheckConnection

type_synonym 'a response = "remote_error + 'a"

type_synonym outcome = "request list \<times> State"

text \<open>\<^verbatim>\<open>(rows || [])\<close>: the data of a select may be \<^verbatim>\<open>null\<close>.\<close>

definition orEmpty :: "'a list option \<Rightarrow> 'a list" where
  "orEmpty d = (case d of None \<Rightarrow> [] | Some xs \<Rightarrow> xs)"

section \<open>fetchGroups\<close>

definition groupsWithDetails ::
  "Group list \<Rightarrow> Subgroup list \<Rightarrow> File list \<Rightarrow> GroupWithDetails list" where
  "groupsWithDetails gs ss fs =
     map (\<lambda>group.
            groupWith group
              (map (\<lambda>subgroup.
                      subgroupWith subgroup
                        (filter (\<lambda>file. f_subgroup_id file = s_id subgroup) fs) True)
                   (filter (\<lambda>subgroup. s_group_id subgroup = g_id group) ss))
              True)
         gs"

text \<open>
  The \<^verbatim>\<open>catch\<close> block of a handler: set the error message, probe the connection, store
  the probe's answer.
\<close>

definition failed :: "string \<Rightarrow> bool \<Rightarrow> State \<Rightarrow> State" where
  "failed msg connected st = st\<lparr>error := Some msg, isConnected := connected\<rparr>"

definition fetchGroups ::
  "Group list option response \<Rightarrow> Subgroup list option response \<Rightarrow>
   File list option response \<Rightarrow> bool \<Rightarrow> State \<Rightarrow> outcome" where
  "fetchGroups rg rs rf connected st =
     (if \<not> isConnected st then ([], st)
      else case rg of
        Inl e \<Rightarrow>
          ([Select ''groups'', CheckConnection],
           (failed ''Erro ao carregar os dados'' connected st)\<lparr>isLoading := False\<rparr>)
      | Inr gs \<Rightarrow>
         (case rs of
            Inl e \<Rightarrow>
              ([Select ''groups'', Select ''subgroups'', CheckConnection],
               (failed ''Erro ao carregar os dados'' connected st)\<lparr>isLoading := False\<rparr>)
          | Inr ss \<Rightarrow>
             (case rf of
                Inl e \<Rightarrow>
                  ([Select ''groups'', Select ''subgroups'', Select ''files'',
                    CheckConnection],
                   (failed ''Erro ao carregar os dados'' connected st)
                     \<lparr>isLoading := False\<rparr>)
              | Inr fs \<Rightarrow>
                  ([Select ''groups'', Select ''subgroups'', Select ''files''],
                   st\<lparr>groups := groupsWithDetails (orEmpty gs) (orEmpty ss) (orEmpty fs),
                      error := None, isLoading := False\<rparr>))))"

section \<open>The create handlers\<close>

definition handleCreateGroup :: "Group response \<Rightarrow> bool \<Rightarrow> State \<Rightarrow> outcome" where
  "handleCreateGroup r connected st =
     (if \<not> truthy (trim (newGroupName st)) \<or> \<not> truthyOpt (userId st) \<or> \<not> isConnected st
      then ([], st)
      else
        let ins = Insert ''groups''
                    [(''name'', Some (newGroupName st)), (''user_id'', userId st)]
        in case r of
             Inr data \<Rightarrow>
               ([ins],
                st\<lparr>groups := groups st @ [groupWith data [] True],
                   newGroupName := [], error := None\<rparr>)
           | Inl e \<Rightarrow>
               ([ins, CheckConnection], failed ''Erro ao criar grupo'' connected st))"

definition handleCreateSubgroup ::
  "string \<Rightarrow> Subgroup response \<Rightarrow> bool \<Rightarrow> State \<Rightarrow> outcome" where
  "handleCreateSubgroup groupId r connected st =
     (if \<not> truthy (trim (newSubgroupName st)) \<or> \<not> truthyOpt (userId st) \<or> \<not> isConnected st
      then ([], st)
      else
        let ins = Insert ''subgroups''
                    [(''name'', Some (newSubgroupName st)), (''group_id'', Some groupId),
                     (''user_id'', userId st)]
        in case r of
             Inr data \<Rightarrow>
               ([ins],
                st\<lparr>groups :=
                     map (\<lambda>group.
                            if g_id group = groupId
                            then group\<lparr>subgroups :=
                                   subgroups group @ [subgroupWith data [] True]\<rparr>
                            else group)
                         (groups st),
                   newSubgroupName := [], addingSubgroupTo := None, error := None\<rparr>)
           | Inl e \<Rightarrow>
               ([ins, CheckConnection], failed ''Erro ao criar subgrupo'' connected st))"

definition handleAddFile :: "File response \<Rightarrow> bool \<Rightarrow> State \<Rightarrow> outcome" where
  "handleAddFile r connected st =
     (if \<not> truthyOpt (selectedSubgroup st) \<or> \<not> truthy (newFileName st) \<or>
         \<not> truthy (newFileLink st) \<or> \<not> truthyOpt (userId st) \<or> \<not> isConnected st
      then ([], st)
      else
        let ins = Insert ''files''
                    [(''name'', Some (newFileName st)), (''link'', Some (newFileLink st)),
                     (''subgroup_id'', selectedSubgroup st), (''user_id'', userId st)]
        in case r of
             Inr data \<Rightarrow>
               ([ins],
                st\<lparr>groups :=
                     map (\<lambda>group.
                            group\<lparr>subgroups :=
                              map (\<lambda>subgroup.
                                     if Some (s_id subgroup) = selectedSubgroup st
                                     then subgroup\<lparr>files := files subgroup @ [data]\<rparr>
                                     else subgroup)
                                  (subgroups group)\<rparr>)
                         (groups st),
                   newFileName := [], newFileLink := [], error := None\<rparr>)
           | Inl e \<Rightarrow>
               ([ins, CheckConnection], failed ''Erro ao adicionar arquivo'' connected st))"

section \<open>The delete handlers\<close>

text \<open>The answer of a delete carries no data: \<open>None\<close> is success, \<open>Some e\<close> the error.\<close>

definition handleDeleteGroup ::
  "string \<Rightarrow> remote_error option \<Rightarrow> bool \<Rightarrow> State \<Rightarrow> outcome" where
  "handleDeleteGroup groupId r connected st =
     (if \<not> isConnected st then ([], st)
      else case r of
        None \<Rightarrow>
          ([Delete ''groups'' groupId],
           (let st1 = st\<lparr>groups := filter (\<lambda>group. g_id group \<noteq> groupId) (groups st)\<rparr>;
                st2 = (if selectedGroup st = Some groupId
                       then st1\<lparr>selectedGroup := None, selectedSubgroup := None\<rparr>
                       else st1)
            in st2\<lparr>error := None\<rparr>))
      | Some e \<Rightarrow>
          ([Delete ''groups'' groupId, CheckConnection],
           failed ''Erro ao deletar grupo'' connected st))"

definition handleDeleteSubgroup ::
  "string \<Rightarrow> remote_error option \<Rightarrow> bool \<Rightarrow> State \<Rightarrow> outcome" where
  "handleDeleteSubgroup subgroupId r connected st =
     (if \<not> isConnected st then ([], st)
      else case r of
        None \<Rightarrow>
          ([Delete ''subgroups'' subgroupId],
           (let st1 = st\<lparr>groups :=
                         map (\<lambda>group.
                                group\<lparr>subgroups :=
                                  filter (\<lambda>subgroup. s_id subgroup \<noteq> subgroupId)
                                         (subgroups group)\<rparr>)
                             (groups st)\<rparr>;
                st2 = (if selectedSubgroup st = Some subgroupId
                       then st1\<lparr>selectedSubgroup := None\<rparr>
                       else st1)
            in st2\<lparr>error := None\<rparr>))
      | Some e \<Rightarrow>
          ([Delete ''subgroups'' subgroupId, CheckConnection],
           failed ''Erro ao deletar subgrupo'' connected st))"

definition handleDeleteFile ::
  "string \<Rightarrow> remote_error option \<Rightarrow> bool \<Rightarrow> State \<Rightarrow> outcome" where
  "handleDeleteFile fileId r connected st =
     (if \<not> isConnected st then ([], st)
      else case r of
        None \<Rightarrow>
          ([Delete ''files'' fileId],
           st\<lparr>groups :=
                map (\<lambda>group.
                       group\<lparr>subgroups :=
                         map (\<lambda>subgroup.
                                subgroup\<lparr>files :=
                                  filter (\<lambda>file. f_id file \<noteq> fileId) (files subgroup)\<rparr>)
                             (subgroups group)\<rparr>)
                    (groups st),
              error := None\<rparr>)
      | Some e \<Rightarrow>
          ([Delete ''files'' fileId, CheckConnection],
           failed ''Erro ao deletar arquivo'' connected st))"

section \<open>The local handlers\<close>

definition toggleGroup :: "string \<Rightarrow> State \<Rightarrow> State" where
  "toggleGroup groupId st =
     st\<lparr>groups :=
          map (\<lambda>group.
                 if g_id group = groupId
                 then group\<lparr>isExpanded := \<not> isExpanded group\<rparr>
                 else group)
              (groups st)\<rparr>"

definition toggleSubgroup :: "string \<Rightarrow> string \<Rightarrow> State \<Rightarrow> State" where
  "toggleSubgroup groupId subgroupId st =
     st\<lparr>groups :=
          map (\<lambda>group.
                 if g_id group = groupId
                 then group\<lparr>subgroups :=
                        map (\<lambda>subgroup.
                               if s_id subgroup = subgroupId
                               then subgroup\<lparr>s_isExpanded := \<not> s_isExpanded subgroup\<rparr>
                               else subgroup)
                            (subgroups group)\<rparr>
                 else group)
              (groups st)\<rparr>"

text \<open>
  The state setters the view calls directly: clicking a group row
  (\<^verbatim>\<open>setSelectedGroup(group.id)\<close>), clicking a subgroup row
  (\<^verbatim>\<open>setSelectedSubgroup(subgroup.id)\<close>), the plus button of a group (which selects the
  group and opens its subgroup form), the \<^verbatim>\<open>onChange\<close> of the four inputs, and
  \<^verbatim>\<open>setUserId(user.id)\<close> of the initialisation.
\<close>

definition setSelectedGroup :: "string \<Rightarrow> State \<Rightarrow> State" where
  "setSelectedGroup i st = st\<lparr>selectedGroup := Some i\<rparr>"

definition setSelectedSubgroup :: "string \<Rightarrow> State \<Rightarrow> State" where
  "setSelectedSubgroup i st = st\<lparr>selectedSubgroup := Some i\<rparr>"

definition clickAddSubgroup :: "string \<Rightarrow> State \<Rightarrow> State" where
  "clickAddSubgroup i st = st\<lparr>selectedGroup := Some i, addingSubgroupTo := Some i\<rparr>"

definition setNewGroupName :: "string \<Rightarrow> State \<Rightarrow> State" where
  "setNewGroupName v st = st\<lparr>newGroupName := v\<rparr>"

definition setNewSubgroupName :: "string \<Rightarrow> State \<Rightarrow> State" where
  "setNewSubgroupName v st = st\<lparr>newSubgroupName := v\<rparr>"

definition setNewFileName :: "string \<Rightarrow> State \<Rightarrow> State" where
  "setNewFileName v st = st\<lparr>newFileName := v\<rparr>"

definition setNewFileLink :: "string \<Rightarrow> State \<Rightarrow> State" where
  "setNewFileLink v st = st\<lparr>newFileLink := v\<rparr>"

definition setUserId :: "string \<Rightarrow> State \<Rightarrow> State" where
  "setUserId u st = st\<lparr>userId := Some u\<rparr>"

section \<open>Runs of the component\<close>

text \<open>
  One event for each handler, carrying the answers of the remote service to the calls the
  handler makes. Handlers are run one after the other: each sees the state the previous
  one left. (Interleavings of pending requests are outside this model.)
\<close>

datatype event =
    FetchGroups "Group list option response" "Subgroup list option response"
                "File list option response" bool
  | CreateGroup "Group response" bool
  | CreateSubgroup string "Subgroup response" bool
  | AddFile "File response" bool
  | DeleteGroup string "remote_error option" bool
  | DeleteSubgroup string "remote_error option" bool
  | DeleteFile string "remote_error option" bool
  | ToggleGroup string
  | ToggleSubgroup string string
  | ClickGroup string
  | ClickSubgroup string
  | ClickAddSubgroup string
  | TypeGroupName string
  | TypeSubgroupName string
  | TypeFileName string
  | TypeFileLink string
  | LoggedIn string

fun step :: "event \<Rightarrow> State \<Rightarrow> State" where
  "step (FetchGroups rg rs rf c) st = snd (fetchGroups rg rs rf c st)"
| "step (CreateGroup r c) st = snd (handleCreateGroup r c st)"
| "step (CreateSubgroup gid r c) st = snd (handleCreateSubgroup gid r c st)"
| "step (AddFile r c) st = snd (handleAddFile r c st)"
| "step (DeleteGroup i r c) st = snd (handleDeleteGroup i r c st)"
| "step (DeleteSubgroup i r c) st = snd (handleDeleteSubgroup i r c st)"
| "step (DeleteFile i r c) st = snd (handleDeleteFile i r c st)"
| "step (ToggleGroup i) st = toggleGroup i st"
| "step (ToggleSubgroup i j) st = toggleSubgroup i j st"
| "step (ClickGroup i) st = setSelectedGroup i st"
| "step (ClickSubgroup i) st = setSelectedSubgroup i st"
| "step (ClickAddSubgroup i) st = clickAddSubgroup i st"
| "step (TypeGroupName v) st = setNewGroupName v st"
| "step (TypeSubgroupName v) st = setNewSubgroupName v st"
| "step (TypeFileName v) st = setNewFileName v st"
| "step (TypeFileLink v) st = setNewFileLink v st"
| "step (LoggedIn u) st = setUserId u st"

fun run :: "event list \<Rightarrow> State \<Rightarrow> State" where
  "run [] st = st"
| "run (e # es) st = run es (step e st)"

section \<open>Observations on the tree\<close>

text \<open>The row a tree node was built from (the node without its view fields).\<close>

definition groupRow :: "GroupWithDetails \<Rightarrow> Group" where
  "groupRow g =
     \<lparr>g_id = g_id g, g_name = g_name g, g_user_id = g_user_id g,
      g_created_at = g_created_at g\<rparr>"

definition subgroupRow :: "SubgroupWithDetails \<Rightarrow> Subgroup" where
  "subgroupRow s =
     \<lparr>s_id = s_id s, s_name = s_name s, s_group_id = s_group_id s,
      s_user_id = s_user_id s, s_created_at = s_created_at s\<rparr>"

text \<open>All subgroups and all files of a tree, as the view flattens them with \<^verbatim>\<open>flatMap\<close>.\<close>

definition allSubgroups :: "GroupWithDetails list \<Rightarrow> SubgroupWithDetails list" where
  "allSubgroups t = concat (map subgroups t)"

definition allFiles :: "GroupWithDetails list \<Rightarrow> File list" where
  "allFiles t = concat (map files (allSubgroups t))"


section \<open>Predicates of the specification\<close>

text \<open>
  A state differs from an earlier one at most in the error message and the connectivity
  flag.
\<close>

definition onlyErrorAndConnectivity :: "State \<Rightarrow> State \<Rightarrow> bool" where
  "onlyErrorAndConnectivity st st' =
     (st' = st\<lparr>error := error st', isConnected := isConnected st'\<rparr>)"

text \<open>
  What a failed mutation may do: the tree is the one before, nothing but the error and the
  connectivity flag differs, and when a request was sent the connection was probed after
  it, an error message is set and the flag holds the probe's answer.
\<close>

definition failureOutcome :: "State \<Rightarrow> bool \<Rightarrow> outcome \<Rightarrow> bool" where
  "failureOutcome st connected out =
     (groups (snd out) = groups st \<and>
      onlyErrorAndConnectivity st (snd out) \<and>
      (fst out \<noteq> [] \<longrightarrow>
         last (fst out) = CheckConnection \<and>
         error (snd out) \<noteq> None \<and> isConnected (snd out) = connected))"

text \<open>
  The outcome of an operation that went through: a request was sent, the connection was
  not probed (no \<^verbatim>\<open>catch\<close> block ran), and the state holds no error message.
\<close>

definition answeredAndCleared :: "outcome \<Rightarrow> bool" where
  "answeredAndCleared out =
     (fst out \<noteq> [] \<and> CheckConnection \<notin> set (fst out) \<and> error (snd out) = None)"

text \<open>
  The remote calls an event makes. The two toggles and the setters are synchronous
  functions of the state that never touch the client SDK.
\<close>

fun calls :: "event \<Rightarrow> State \<Rightarrow> request list" where
  "calls (FetchGroups rg rs rf c) st = fst (fetchGroups rg rs rf c st)"
| "calls (CreateGroup r c) st = fst (handleCreateGroup r c st)"
| "calls (CreateSubgroup gid r c) st = fst (handleCreateSubgroup gid r c st)"
| "calls (AddFile r c) st = fst (handleAddFile r c st)"
| "calls (DeleteGroup i r c) st = fst (handleDeleteGroup i r c st)"
| "calls (DeleteSubgroup i r c) st = fst (handleDeleteSubgroup i r c st)"
| "calls (DeleteFile i r c) st = fst (handleDeleteFile i r c st)"
| "calls _ st = []"

text \<open>
  \<open>groupToggled gid g g'\<close>: the node \<open>g'\<close> is \<open>g\<close> up to its expanded flag, and the flag
  is flipped exactly when \<open>g\<close> carries the id \<open>gid\<close>.
\<close>

definition groupToggled :: "string \<Rightarrow> GroupWithDetails \<Rightarrow> GroupWithDetails \<Rightarrow> bool" where
  "groupToggled gid g g' =
     (g'\<lparr>isExpanded := isExpanded g\<rparr> = g \<and>
      isExpanded g' = (if g_id g = gid then \<not> isExpanded g else isExpanded g))"

text \<open>
  \<open>subgroupToggled gid sid g g'\<close>: the group \<open>g'\<close> is \<open>g\<close> up to its subgroups (its own
  flag included), it has the same subgroups in the same order, each equal to the old one
  up to its expanded flag, and the flag of a subgroup is flipped exactly when the group
  carries the id \<open>gid\<close> and the subgroup the id \<open>sid\<close>.
\<close>

definition subgroupToggled ::
  "string \<Rightarrow> string \<Rightarrow> GroupWithDetails \<Rightarrow> GroupWithDetails \<Rightarrow> bool" where
  "subgroupToggled gid sid g g' =
     (g'\<lparr>subgroups := subgroups g\<rparr> = g \<and>
      list_all2
        (\<lambda>s s'. s'\<lparr>s_isExpanded := s_isExpanded s\<rparr> = s \<and>
                 s_isExpanded s' =
                   (if g_id g = gid \<and> s_id s = sid then \<not> s_isExpanded s
                    else s_isExpanded s))
        (subgroups g) (subgroups g'))"

text \<open>Every node of a tree is expanded.\<close>

definition allExpanded :: "GroupWithDetails list \<Rightarrow> bool" where
  "allExpanded t = list_all (\<lambda>g. isExpanded g \<and> list_all s_isExpanded (subgroups g)) t"

text \<open>
  \<open>fetchOrder gs ss fs t\<close>: the tree \<open>t\<close> holds the fetched groups in the order of the
  fetch, under each group the fetched subgroups that refer to it, in the order of the
  fetch, and under each subgroup the fetched files that refer to it, in the order of the
  fetch.
\<close>

definition fetchOrder ::
  "Group list \<Rightarrow> Subgroup list \<Rightarrow> File list \<Rightarrow> GroupWithDetails list \<Rightarrow> bool" where
  "fetchOrder gs ss fs t =
     (map groupRow t = gs \<and>
      list_all (\<lambda>g.
        map subgroupRow (subgroups g) = filter (\<lambda>s. s_group_id s = g_id g) ss \<and>
        list_all (\<lambda>s. files s = filter (\<lambda>f. f_subgroup_id f = s_id s) fs) (subgroups g))
        t)"

text \<open>
  \<open>orderedTree le t\<close>: at every level of \<open>t\<close> the nodes ascend in creation time, for an
  order \<open>le\<close> on time stamps.
\<close>

definition orderedTree :: "(string \<Rightarrow> string \<Rightarrow> bool) \<Rightarrow> GroupWithDetails list \<Rightarrow> bool" where
  "orderedTree le t =
     (sorted_wrt (\<lambda>a b. le (g_created_at a) (g_created_at b)) t \<and>
      list_all (\<lambda>g.
        sorted_wrt (\<lambda>a b. le (s_created_at a) (s_created_at b)) (subgroups g) \<and>
        list_all (\<lambda>s. sorted_wrt (\<lambda>a b. le (f_created_at a) (f_created_at b)) (files s))
          (subgroups g))
        t)"

text \<open>
  \<open>subgroupAppended gid new g g'\<close>: the group \<open>g'\<close> is \<open>g\<close> up to its subgroups, which
  are those of \<open>g\<close> followed by \<open>new\<close> when \<open>g\<close> carries the id \<open>gid\<close> and those of \<open>g\<close>
  otherwise.
\<close>

definition subgroupAppended ::
  "string \<Rightarrow> SubgroupWithDetails \<Rightarrow> GroupWithDetails \<Rightarrow> GroupWithDetails \<Rightarrow> bool" where
  "subgroupAppended gid new g g' =
     (g'\<lparr>subgroups := subgroups g\<rparr> = g \<and>
      subgroups g' = (if g_id g = gid then subgroups g @ [new] else subgroups g))"

text \<open>
  \<open>fileAppended sid new g g'\<close>: the group \<open>g'\<close> is \<open>g\<close> up to the files of its
  subgroups; the files of a subgroup are the old ones followed by \<open>new\<close> when the
  subgroup carries the selected id \<open>sid\<close> and the old ones otherwise.
\<close>

definition fileAppended ::
  "string option \<Rightarrow> File \<Rightarrow> GroupWithDetails \<Rightarrow> GroupWithDetails \<Rightarrow> bool" where
  "fileAppended sid new g g' =
     (g'\<lparr>subgroups := subgroups g\<rparr> = g \<and>
      list_all2
        (\<lambda>s s'. s'\<lparr>files := files s\<rparr> = s \<and>
                 files s' = (if Some (s_id s) = sid then files s @ [new] else files s))
        (subgroups g) (subgroups g'))"



text \<open>
  Time stamps of one format compare as strings: \<open>stampLe\<close> is the lexicographic order
  on the code units.
\<close>

fun stampLe :: "string \<Rightarrow> string \<Rightarrow> bool" where
  "stampLe [] b = True"
| "stampLe (x # xs) [] = False"
| "stampLe (x # xs) (y # ys) =
     ((of_char x :: nat) < of_char y \<or> (x = y \<and> stampLe xs ys))"

section \<open>Sample data\<close>

text \<open>
  Two groups, a subgroup of the first with one file, and a subgroup and a file whose
  parents are not among the rows. \<open>exLoaded\<close> is the state after the user \<^verbatim>\<open>u1\<close> has
  logged in and the rows have been fetched.
\<close>

definition exGroup1 :: Group where
  "exGroup1 = \<lparr>g_id = ''g1'', g_name = ''Docs'', g_user_id = ''u1'', g_created_at = ''t1''\<rparr>"

definition exGroup2 :: Group where
  "exGroup2 = \<lparr>g_id = ''g2'', g_name = ''Media'', g_user_id = ''u1'', g_created_at = ''t2''\<rparr>"

definition exSubgroup1 :: Subgroup where
  "exSubgroup1 =
     \<lparr>s_id = ''s1'', s_name = ''2024'', s_group_id = ''g1'', s_user_id = ''u1'',
      s_created_at = ''t3''\<rparr>"

definition exOrphanSubgroup :: Subgroup where
  "exOrphanSubgroup =
     \<lparr>s_id = ''s9'', s_name = ''lost'', s_group_id = ''g9'', s_user_id = ''u1'',
      s_created_at = ''t4''\<rparr>"

definition exFile1 :: File where
  "exFile1 =
     \<lparr>f_id = ''f1'', f_name = ''report.pdf'', f_link = ''https://x/y'',
      f_subgroup_id = ''s1'', f_user_id = ''u1'', f_created_at = ''t5''\<rparr>"

definition exOrphanFile :: File where
  "exOrphanFile =
     \<lparr>f_id = ''f9'', f_name = ''lost.pdf'', f_link = ''https://x/z'',
      f_subgroup_id = ''s9'', f_user_id = ''u1'', f_created_at = ''t6''\<rparr>"

definition exLoaded :: State where
  "exLoaded =
     run [LoggedIn ''u1'',
          FetchGroups (Inr (Some [exGroup1, exGroup2]))
                      (Inr (Some [exSubgroup1, exOrphanSubgroup]))
                      (Inr (Some [exFile1, exOrphanFile])) True]
         initialState"

text \<open>
  \<open>exReady\<close>: the loaded state with the three forms filled in and the subgroup \<^verbatim>\<open>s1\<close>
  selected, so that the guard of every handler passes.
\<close>

definition exReady :: State where
  "exReady =
     run [TypeGroupName ''Notes'', TypeSubgroupName ''2025'', ClickSubgroup ''s1'',
          TypeFileName ''plan.pdf'', TypeFileLink ''https://x/p'']
         exLoaded"

text \<open>
  \<open>exErrored\<close>: in \<open>exReady\<close> a create of a group has just failed, with the connection
  still up, so the state carries the error message of that failure.
\<close>

definition exErrored :: State where
  "exErrored = run [CreateGroup (Inl (RemoteError ''rejected'')) True] exReady"



section \<open>Evaluation of the string primitives\<close>

lemma trim_Nil: "trim [] = []"
  by (simp add: trim_def)

lemma truthy_Nil: "\<not> truthy []"
  by (simp add: truthy_def)

lemma truthyOpt_None: "\<not> truthyOpt None"
  by (simp add: truthyOpt_def)

lemma truthyOpt_Some: "truthyOpt (Some s) = (s \<noteq> [])"
  by (simp add: truthyOpt_def truthy_def)

section \<open>Local rejection of createGroup\<close>

text \<open>
  Claim C8. When the typed group name is empty after trimming, or there is no active
  session (the user id is null or empty), or the connectivity flag is false,
  \<^verbatim>\<open>handleCreateGroup\<close> returns at its guard: it makes no remote call at all (in
  particular no insert) and the state it leaves is the state it found, whatever the
  remote service would have answered.
\<close>

theorem createGroup_rejected_locally:
  "trim (newGroupName st) = [] \<or> \<not> truthyOpt (userId st) \<or> \<not> isConnected st \<Longrightarrow>
   handleCreateGroup r connected st = ([], st)"
  by (auto simp: handleCreateGroup_def truthy_def)

theorem createGroup_rejected_locally_witness:
  "trim (newGroupName (initialState\<lparr>newGroupName := ''  '', userId := Some ''u1''\<rparr>)) = [] \<and>
   handleCreateGroup
     (Inr \<lparr>g_id = ''g1'', g_name = ''  '', g_user_id = ''u1'', g_created_at = ''t1''\<rparr>)
     True (initialState\<lparr>newGroupName := ''  '', userId := Some ''u1''\<rparr>)
   = ([], initialState\<lparr>newGroupName := ''  '', userId := Some ''u1''\<rparr>)"
  using createGroup_rejected_locally
          [of "initialState\<lparr>newGroupName := ''  '', userId := Some ''u1''\<rparr>"
              "Inr \<lparr>g_id = ''g1'', g_name = ''  '', g_user_id = ''u1'', g_created_at = ''t1''\<rparr>"
              True]
  by (simp add: trim_def isWhiteSpace_def initialState_def)

section \<open>The sample states, evaluated\<close>

lemmas ex_defs =
  exGroup1_def exGroup2_def exSubgroup1_def exOrphanSubgroup_def exFile1_def
  exOrphanFile_def

lemma exLoaded_eq:
  "exLoaded =
     \<lparr>groups =
        [\<lparr>g_id = ''g1'', g_name = ''Docs'', g_user_id = ''u1'', g_created_at = ''t1'',
          subgroups =
            [\<lparr>s_id = ''s1'', s_name = ''2024'', s_group_id = ''g1'', s_user_id = ''u1'',
              s_created_at = ''t3'', files = [exFile1], s_isExpanded = True\<rparr>],
          isExpanded = True\<rparr>,
         \<lparr>g_id = ''g2'', g_name = ''Media'', g_user_id = ''u1'', g_created_at = ''t2'',
          subgroups = [], isExpanded = True\<rparr>],
      newGroupName = [], selectedGroup = None, selectedSubgroup = None,
      newFileName = [], newFileLink = [], addingSubgroupTo = None, newSubgroupName = [],
      isLoading = False, error = None, userId = Some ''u1'', copiedLink = None,
      isConnected = True\<rparr>"
  by (simp add: exLoaded_def initialState_def setUserId_def fetchGroups_def orEmpty_def
        groupsWithDetails_def groupWith_def subgroupWith_def ex_defs)

lemma exReady_eq:
  "exReady =
     exLoaded\<lparr>newGroupName := ''Notes'', newSubgroupName := ''2025'',
              selectedSubgroup := Some ''s1'', newFileName := ''plan.pdf'',
              newFileLink := ''https://x/p''\<rparr>"
  by (simp add: exReady_def exLoaded_eq setNewGroupName_def setNewSubgroupName_def
        setSelectedSubgroup_def setNewFileName_def setNewFileLink_def)

lemma exReady_guards:
  "truthy (trim (newGroupName exReady))" "truthy (trim (newSubgroupName exReady))"
  "truthy (newFileName exReady)" "truthy (newFileLink exReady)"
  "truthyOpt (selectedSubgroup exReady)" "truthyOpt (userId exReady)"
  "isConnected exReady"
  by (simp_all add: exReady_eq exLoaded_eq truthy_def truthyOpt_def trim_def
        isWhiteSpace_def)

section \<open>Failed mutations\<close>

lemma createGroup_failure: "failureOutcome st c (handleCreateGroup (Inl e) c st)"
  by (simp add: failureOutcome_def onlyErrorAndConnectivity_def handleCreateGroup_def
        failed_def Let_def)

lemma createSubgroup_failure:
  "failureOutcome st c (handleCreateSubgroup gid (Inl e) c st)"
  by (simp add: failureOutcome_def onlyErrorAndConnectivity_def handleCreateSubgroup_def
        failed_def Let_def)

lemma addFile_failure: "failureOutcome st c (handleAddFile (Inl e) c st)"
  by (simp add: failureOutcome_def onlyErrorAndConnectivity_def handleAddFile_def
        failed_def Let_def)

lemma deleteGroup_failure: "failureOutcome st c (handleDeleteGroup i (Some e) c st)"
  by (simp add: failureOutcome_def onlyErrorAndConnectivity_def handleDeleteGroup_def
        failed_def)

lemma deleteSubgroup_failure:
  "failureOutcome st c (handleDeleteSubgroup i (Some e) c st)"
  by (simp add: failureOutcome_def onlyErrorAndConnectivity_def handleDeleteSubgroup_def
        failed_def)

lemma deleteFile_failure: "failureOutcome st c (handleDeleteFile i (Some e) c st)"
  by (simp add: failureOutcome_def onlyErrorAndConnectivity_def handleDeleteFile_def
        failed_def)

text \<open>
  Claim C4. Whenever the remote service answers an insert or a delete with a failure,
  each of the six mutation handlers leaves the tree exactly as it was (no node is added
  or removed), changes nothing of the state but the error message and the connectivity
  flag, and, when the request was in fact sent, sets an error message and stores the
  answer of the connection probe.
\<close>

theorem failed_mutation_leaves_tree:
  "failureOutcome st c (handleCreateGroup (Inl e) c st) \<and>
   failureOutcome st c (handleCreateSubgroup gid (Inl e) c st) \<and>
   failureOutcome st c (handleAddFile (Inl e) c st) \<and>
   failureOutcome st c (handleDeleteGroup i (Some e) c st) \<and>
   failureOutcome st c (handleDeleteSubgroup i (Some e) c st) \<and>
   failureOutcome st c (handleDeleteFile i (Some e) c st)"
  by (simp only: createGroup_failure createSubgroup_failure addFile_failure
        deleteGroup_failure deleteSubgroup_failure deleteFile_failure simp_thms)

theorem failed_mutation_leaves_tree_witness:
  "fst (handleCreateGroup (Inl (RemoteError ''down'')) False exReady) \<noteq> [] \<and>
   fst (handleCreateSubgroup ''g1'' (Inl (RemoteError ''down'')) False exReady) \<noteq> [] \<and>
   fst (handleAddFile (Inl (RemoteError ''down'')) False exReady) \<noteq> [] \<and>
   fst (handleDeleteGroup ''g1'' (Some (RemoteError ''down'')) False exReady) \<noteq> [] \<and>
   fst (handleDeleteSubgroup ''g1'' (Some (RemoteError ''down'')) False exReady) \<noteq> [] \<and>
   fst (handleDeleteFile ''g1'' (Some (RemoteError ''down'')) False exReady) \<noteq> [] \<and>
   (failureOutcome exReady False
      (handleCreateGroup (Inl (RemoteError ''down'')) False exReady) \<and>
    failureOutcome exReady False
      (handleCreateSubgroup ''g1'' (Inl (RemoteError ''down'')) False exReady) \<and>
    failureOutcome exReady False
      (handleAddFile (Inl (RemoteError ''down'')) False exReady) \<and>
    failureOutcome exReady False
      (handleDeleteGroup ''g1'' (Some (RemoteError ''down'')) False exReady) \<and>
    failureOutcome exReady False
      (handleDeleteSubgroup ''g1'' (Some (RemoteError ''down'')) False exReady) \<and>
    failureOutcome exReady False
      (handleDeleteFile ''g1'' (Some (RemoteError ''down'')) False exReady))"
proof -
  have sent:
    "fst (handleCreateGroup (Inl (RemoteError ''down'')) False exReady) \<noteq> []"
    "fst (handleCreateSubgroup ''g1'' (Inl (RemoteError ''down'')) False exReady) \<noteq> []"
    "fst (handleAddFile (Inl (RemoteError ''down'')) False exReady) \<noteq> []"
    "fst (handleDeleteGroup ''g1'' (Some (RemoteError ''down'')) False exReady) \<noteq> []"
    "fst (handleDeleteSubgroup ''g1'' (Some (RemoteError ''down'')) False exReady) \<noteq> []"
    "fst (handleDeleteFile ''g1'' (Some (RemoteError ''down'')) False exReady) \<noteq> []"
    using exReady_guards
    by (simp_all add: handleCreateGroup_def handleCreateSubgroup_def handleAddFile_def
          handleDeleteGroup_def handleDeleteSubgroup_def handleDeleteFile_def Let_def)
  from sent
    failed_mutation_leaves_tree
      [of exReady False "RemoteError ''down''" "''g1''" "''g1''"]
  show ?thesis by (simp only: simp_thms)
qed

section \<open>Successful operations clear the error\<close>

lemma fetchGroups_clears:
  "isConnected st \<Longrightarrow> answeredAndCleared (fetchGroups (Inr gs) (Inr ss) (Inr fs) c st)"
  by (simp add: answeredAndCleared_def fetchGroups_def)

lemma createGroup_clears:
  "truthy (trim (newGroupName st)) \<Longrightarrow> truthyOpt (userId st) \<Longrightarrow> isConnected st \<Longrightarrow>
   answeredAndCleared (handleCreateGroup (Inr d) c st)"
  by (simp add: answeredAndCleared_def handleCreateGroup_def Let_def)

lemma createSubgroup_clears:
  "truthy (trim (newSubgroupName st)) \<Longrightarrow> truthyOpt (userId st) \<Longrightarrow> isConnected st \<Longrightarrow>
   answeredAndCleared (handleCreateSubgroup gid (Inr d) c st)"
  by (simp add: answeredAndCleared_def handleCreateSubgroup_def Let_def)

lemma addFile_clears:
  "truthyOpt (selectedSubgroup st) \<Longrightarrow> truthy (newFileName st) \<Longrightarrow>
   truthy (newFileLink st) \<Longrightarrow> truthyOpt (userId st) \<Longrightarrow> isConnected st \<Longrightarrow>
   answeredAndCleared (handleAddFile (Inr d) c st)"
  by (simp add: answeredAndCleared_def handleAddFile_def Let_def)

lemma deleteGroup_clears:
  "isConnected st \<Longrightarrow> answeredAndCleared (handleDeleteGroup i None c st)"
  by (simp add: answeredAndCleared_def handleDeleteGroup_def Let_def)

lemma deleteSubgroup_clears:
  "isConnected st \<Longrightarrow> answeredAndCleared (handleDeleteSubgroup i None c st)"
  by (simp add: answeredAndCleared_def handleDeleteSubgroup_def Let_def)

lemma deleteFile_clears:
  "isConnected st \<Longrightarrow> answeredAndCleared (handleDeleteFile i None c st)"
  by (simp add: answeredAndCleared_def handleDeleteFile_def)

lemma exErrored_eq:
  "exErrored = exReady\<lparr>error := Some ''Erro ao criar grupo''\<rparr>"
  using exReady_guards
  by (simp add: exErrored_def handleCreateGroup_def failed_def Let_def)

text \<open>
  Claim C9. Every operation whose guard passes and which the remote service answers with
  success sends its request, runs no \<^verbatim>\<open>catch\<close> block, and ends with the error message
  of the state null, whatever the message was before: \<^verbatim>\<open>fetchGroups\<close> and the three
  deletes from any connected state, the three creates from any connected state with a
  session and the form filled in as their guards demand.
\<close>

theorem success_clears_error:
  "(isConnected st \<longrightarrow>
      answeredAndCleared (fetchGroups (Inr gs) (Inr ss) (Inr fs) c st)) \<and>
   (truthy (trim (newGroupName st)) \<and> truthyOpt (userId st) \<and> isConnected st \<longrightarrow>
      answeredAndCleared (handleCreateGroup (Inr g) c st)) \<and>
   (truthy (trim (newSubgroupName st)) \<and> truthyOpt (userId st) \<and> isConnected st \<longrightarrow>
      answeredAndCleared (handleCreateSubgroup gid (Inr s) c st)) \<and>
   (truthyOpt (selectedSubgroup st) \<and> truthy (newFileName st) \<and>
    truthy (newFileLink st) \<and> truthyOpt (userId st) \<and> isConnected st \<longrightarrow>
      answeredAndCleared (handleAddFile (Inr f) c st)) \<and>
   (isConnected st \<longrightarrow> answeredAndCleared (handleDeleteGroup i None c st)) \<and>
   (isConnected st \<longrightarrow> answeredAndCleared (handleDeleteSubgroup j None c st)) \<and>
   (isConnected st \<longrightarrow> answeredAndCleared (handleDeleteFile k None c st))"
  using fetchGroups_clears [of st gs ss fs c] createGroup_clears [of st g c]
    createSubgroup_clears [of st gid s c] addFile_clears [of st f c]
    deleteGroup_clears [of st i c] deleteSubgroup_clears [of st j c]
    deleteFile_clears [of st k c]
  by blast

theorem success_clears_error_witness:
  "error exErrored = Some ''Erro ao criar grupo'' \<and>
   isConnected exErrored \<and> truthyOpt (userId exErrored) \<and>
   truthy (trim (newGroupName exErrored)) \<and> truthy (trim (newSubgroupName exErrored)) \<and>
   truthyOpt (selectedSubgroup exErrored) \<and> truthy (newFileName exErrored) \<and>
   truthy (newFileLink exErrored) \<and>
   error (snd (fetchGroups (Inr (Some [exGroup1])) (Inr (Some [exSubgroup1]))
                 (Inr (Some [exFile1])) True exErrored)) = None \<and>
   error (snd (handleCreateGroup (Inr exGroup2) True exErrored)) = None \<and>
   error (snd (handleCreateSubgroup ''g1'' (Inr exSubgroup1) True exErrored)) = None \<and>
   error (snd (handleAddFile (Inr exFile1) True exErrored)) = None \<and>
   error (snd (handleDeleteGroup ''g1'' None True exErrored)) = None \<and>
   error (snd (handleDeleteSubgroup ''s1'' None True exErrored)) = None \<and>
   error (snd (handleDeleteFile ''f1'' None True exErrored)) = None \<and>
   fst (handleDeleteSubgroup ''s1'' None True exErrored) = [Delete ''subgroups'' ''s1'']"
proof -
  have before: "error exErrored = Some ''Erro ao criar grupo''"
    by (simp add: exErrored_eq)
  have guards: "isConnected exErrored" "truthyOpt (userId exErrored)"
    "truthy (trim (newGroupName exErrored))" "truthy (trim (newSubgroupName exErrored))"
    "truthyOpt (selectedSubgroup exErrored)" "truthy (newFileName exErrored)"
    "truthy (newFileLink exErrored)"
    using exReady_guards by (simp_all add: exErrored_eq)
  have sent: "fst (handleDeleteSubgroup ''s1'' None True exErrored)
                = [Delete ''subgroups'' ''s1'']"
    using guards(1) by (simp add: handleDeleteSubgroup_def)
  note inst = success_clears_error
    [where st = exErrored and gs = "Some [exGroup1]" and ss = "Some [exSubgroup1]"
       and fs = "Some [exFile1]" and c = True and g = exGroup2 and gid = "''g1''"
       and s = exSubgroup1 and f = exFile1 and i = "''g1''" and j = "''s1''"
       and k = "''f1''"]
  from inst guards have
    "error (snd (fetchGroups (Inr (Some [exGroup1])) (Inr (Some [exSubgroup1]))
                   (Inr (Some [exFile1])) True exErrored)) = None"
    "error (snd (handleCreateGroup (Inr exGroup2) True exErrored)) = None"
    "error (snd (handleCreateSubgroup ''g1'' (Inr exSubgroup1) True exErrored)) = None"
    "error (snd (handleAddFile (Inr exFile1) True exErrored)) = None"
    "error (snd (handleDeleteGroup ''g1'' None True exErrored)) = None"
    "error (snd (handleDeleteSubgroup ''s1'' None True exErrored)) = None"
    "error (snd (handleDeleteFile ''f1'' None True exErrored)) = None"
    by (simp_all add: answeredAndCleared_def)
  with before guards sent show ?thesis
    by (simp only: simp_thms)
qed

section \<open>A subgroup created under a group that is not loaded\<close>

lemma map_if_absent:
  "\<forall>x \<in> set xs. \<not> P x \<Longrightarrow> map (\<lambda>x. if P x then f x else x) xs = xs"
  by (induction xs) auto

text \<open>
  Claim C10. With a session, a live connection and a subgroup name that is not empty
  after trimming, \<^verbatim>\<open>handleCreateSubgroup\<close> called with a group id that no group of the
  local tree carries sends exactly the remote insert (with that group id), and when the
  insert succeeds the tree afterwards is the tree before: the created subgroup has been
  attached to no group.
\<close>

theorem createSubgroup_unknown_group:
  assumes absent: "groupId \<notin> g_id ` set (groups st)"
    and name: "truthy (trim (newSubgroupName st))"
    and session: "truthyOpt (userId st)"
    and conn: "isConnected st"
  shows "fst (handleCreateSubgroup groupId (Inr d) c st) =
           [Insert ''subgroups''
              [(''name'', Some (newSubgroupName st)), (''group_id'', Some groupId),
               (''user_id'', userId st)]] \<and>
         groups (snd (handleCreateSubgroup groupId (Inr d) c st)) = groups st"
proof -
  from absent have "\<forall>g \<in> set (groups st). \<not> g_id g = groupId"
    by auto
  then have
    "map (\<lambda>group. if g_id group = groupId
                   then group\<lparr>subgroups := subgroups group @ [subgroupWith d [] True]\<rparr>
                   else group)
         (groups st) = groups st"
    by (rule map_if_absent)
  with name session conn show ?thesis
    by (simp add: handleCreateSubgroup_def Let_def)
qed

theorem createSubgroup_unknown_group_witness:
  "''g7'' \<notin> g_id ` set (groups exReady) \<and>
   truthy (trim (newSubgroupName exReady)) \<and> truthyOpt (userId exReady) \<and>
   isConnected exReady \<and>
   fst (handleCreateSubgroup ''g7'' (Inr (exSubgroup1\<lparr>s_group_id := ''g7''\<rparr>)) True exReady) =
     [Insert ''subgroups''
        [(''name'', Some ''2025''), (''group_id'', Some ''g7''), (''user_id'', Some ''u1'')]] \<and>
   groups (snd (handleCreateSubgroup ''g7'' (Inr (exSubgroup1\<lparr>s_group_id := ''g7''\<rparr>))
                  True exReady)) = groups exLoaded"
proof -
  have absent: "''g7'' \<notin> g_id ` set (groups exReady)"
    by (simp add: exReady_eq exLoaded_eq)
  have same: "groups exReady = groups exLoaded" "newSubgroupName exReady = ''2025''"
    "userId exReady = Some ''u1''"
    by (simp_all add: exReady_eq exLoaded_eq)
  from createSubgroup_unknown_group
         [OF absent exReady_guards(2) exReady_guards(6) exReady_guards(7),
          of "exSubgroup1\<lparr>s_group_id := ''g7''\<rparr>" True]
       absent exReady_guards same
  show ?thesis by simp
qed

section \<open>Toggling\<close>

lemma list_all2_map_self: "(\<And>x. x \<in> set xs \<Longrightarrow> R x (f x)) \<Longrightarrow> list_all2 R xs (map f xs)"
  by (induction xs) auto

lemma toggleGroup_nodes:
  "list_all2 (groupToggled gid) (groups st) (groups (toggleGroup gid st))"
  unfolding toggleGroup_def
  by (simp, rule list_all2_map_self) (simp add: groupToggled_def)

lemma toggleSubgroup_nodes:
  "list_all2 (subgroupToggled gid sid) (groups st) (groups (toggleSubgroup gid sid st))"
proof -
  have "subgroupToggled gid sid g
          (if g_id g = gid
           then g\<lparr>subgroups :=
                  map (\<lambda>subgroup.
                         if s_id subgroup = sid
                         then subgroup\<lparr>s_isExpanded := \<not> s_isExpanded subgroup\<rparr>
                         else subgroup)
                      (subgroups g)\<rparr>
           else g)" for g
  proof (cases "g_id g = gid")
    case True
    then show ?thesis
      unfolding subgroupToggled_def
      by (simp, intro list_all2_map_self) simp
  next
    case False
    then show ?thesis
      unfolding subgroupToggled_def
      by (simp add: list_all2_same)
  qed
  then show ?thesis
    unfolding toggleSubgroup_def
    by (simp, intro list_all2_map_self) simp
qed

text \<open>
  Claim C7. \<^verbatim>\<open>toggleGroup\<close> and \<^verbatim>\<open>toggleSubgroup\<close> make no remote call, change no field
  of the state but the tree (so the selected group and the selected subgroup stay), keep
  the nodes of the tree and their order, keep every field of every node but the expanded
  flag, and flip the expanded flag of exactly the nodes that carry the targeted id: for
  \<^verbatim>\<open>toggleGroup\<close> the groups with the given id, for \<^verbatim>\<open>toggleSubgroup\<close> the subgroups
  with the given id inside the groups with the given group id.
\<close>

theorem toggle_frame:
  "calls (ToggleGroup gid) st = [] \<and>
   calls (ToggleSubgroup gid sid) st = [] \<and>
   step (ToggleGroup gid) st = st\<lparr>groups := groups (toggleGroup gid st)\<rparr> \<and>
   step (ToggleSubgroup gid sid) st = st\<lparr>groups := groups (toggleSubgroup gid sid st)\<rparr> \<and>
   selectedGroup (toggleGroup gid st) = selectedGroup st \<and>
   selectedSubgroup (toggleGroup gid st) = selectedSubgroup st \<and>
   selectedGroup (toggleSubgroup gid sid st) = selectedGroup st \<and>
   selectedSubgroup (toggleSubgroup gid sid st) = selectedSubgroup st \<and>
   list_all2 (groupToggled gid) (groups st) (groups (toggleGroup gid st)) \<and>
   list_all2 (subgroupToggled gid sid) (groups st) (groups (toggleSubgroup gid sid st))"
proof -
  have "step (ToggleGroup gid) st = st\<lparr>groups := groups (toggleGroup gid st)\<rparr>"
    "step (ToggleSubgroup gid sid) st = st\<lparr>groups := groups (toggleSubgroup gid sid st)\<rparr>"
    by (simp_all add: toggleGroup_def toggleSubgroup_def)
  moreover have
    "selectedGroup (toggleGroup gid st) = selectedGroup st"
    "selectedSubgroup (toggleGroup gid st) = selectedSubgroup st"
    "selectedGroup (toggleSubgroup gid sid st) = selectedGroup st"
    "selectedSubgroup (toggleSubgroup gid sid st) = selectedSubgroup st"
    by (simp_all add: toggleGroup_def toggleSubgroup_def)
  ultimately show ?thesis
    using toggleGroup_nodes [of gid st] toggleSubgroup_nodes [of gid sid st]
    by simp
qed

theorem toggle_frame_witness:
  "map isExpanded (groups exLoaded) = [True, True] \<and>
   map isExpanded (groups (toggleGroup ''g1'' exLoaded)) = [False, True] \<and>
   map (map s_isExpanded \<circ> subgroups) (groups (toggleSubgroup ''g1'' ''s1'' exLoaded))
     = [[False], []] \<and>
   map (map s_isExpanded \<circ> subgroups) (groups (toggleSubgroup ''g2'' ''s1'' exLoaded))
     = [[True], []] \<and>
   list_all2 (groupToggled ''g1'') (groups exLoaded) (groups (toggleGroup ''g1'' exLoaded)) \<and>
   list_all2 (subgroupToggled ''g1'' ''s1'') (groups exLoaded)
     (groups (toggleSubgroup ''g1'' ''s1'' exLoaded))"
proof -
  have "map isExpanded (groups exLoaded) = [True, True]"
    "map isExpanded (groups (toggleGroup ''g1'' exLoaded)) = [False, True]"
    "map (map s_isExpanded \<circ> subgroups) (groups (toggleSubgroup ''g1'' ''s1'' exLoaded))
       = [[False], []]"
    "map (map s_isExpanded \<circ> subgroups) (groups (toggleSubgroup ''g2'' ''s1'' exLoaded))
       = [[True], []]"
    by (simp_all add: exLoaded_eq toggleGroup_def toggleSubgroup_def)
  then show ?thesis
    using toggle_frame [of "''g1''" exLoaded "''s1''"] by simp
qed

section \<open>Loading twice\<close>

lemma groupsWithDetails_allExpanded: "allExpanded (groupsWithDetails gs ss fs)"
  by (simp add: allExpanded_def groupsWithDetails_def groupWith_def subgroupWith_def
        list_all_iff)

lemma fetchGroups_idem:
  "snd (fetchGroups rg rs rf c (snd (fetchGroups rg rs rf c st))) =
   snd (fetchGroups rg rs rf c st)"
  by (cases rg; cases rs; cases rf) (simp_all add: fetchGroups_def failed_def)

lemma fetchGroups_tree:
  "isConnected st \<Longrightarrow>
   groups (snd (fetchGroups (Inr gs) (Inr ss) (Inr fs) c st)) =
   groupsWithDetails (orEmpty gs) (orEmpty ss) (orEmpty fs)"
  by (simp add: fetchGroups_def)

text \<open>
  Claim C5. For fixed answers of the remote service, the state after two calls of
  \<^verbatim>\<open>fetchGroups\<close> is the state after one. After a successful load from a connected
  state the tree is \<open>groupsWithDetails\<close> of the fetched rows, a function of the rows
  alone: it is the same from any two connected states (nothing of the previous tree
  remains), and every group and subgroup of it is expanded.
\<close>

theorem fetchGroups_idempotent:
  "snd (fetchGroups rg rs rf c (snd (fetchGroups rg rs rf c st))) =
     snd (fetchGroups rg rs rf c st) \<and>
   (isConnected st \<longrightarrow>
      groups (snd (fetchGroups (Inr gs) (Inr ss) (Inr fs) c st)) =
        groupsWithDetails (orEmpty gs) (orEmpty ss) (orEmpty fs) \<and>
      allExpanded (groups (snd (fetchGroups (Inr gs) (Inr ss) (Inr fs) c st))) \<and>
      (\<forall>st'. isConnected st' \<longrightarrow>
         groups (snd (fetchGroups (Inr gs) (Inr ss) (Inr fs) c st')) =
         groups (snd (fetchGroups (Inr gs) (Inr ss) (Inr fs) c st))))"
  using fetchGroups_idem [of rg rs rf c st] fetchGroups_tree [of _ gs ss fs c]
    groupsWithDetails_allExpanded [of "orEmpty gs" "orEmpty ss" "orEmpty fs"]
  by simp

theorem fetchGroups_idempotent_witness:
  "isConnected (toggleGroup ''g1'' exReady) \<and>
   \<not> allExpanded (groups (toggleGroup ''g1'' exReady)) \<and>
   groups (snd (fetchGroups (Inr (Some [exGroup2])) (Inr None) (Inr (Some [exFile1])) True
                  (toggleGroup ''g1'' exReady)))
     = [groupWith exGroup2 [] True] \<and>
   snd (fetchGroups (Inr (Some [exGroup2])) (Inr None) (Inr (Some [exFile1])) True
          (snd (fetchGroups (Inr (Some [exGroup2])) (Inr None) (Inr (Some [exFile1])) True
                  (toggleGroup ''g1'' exReady))))
     = snd (fetchGroups (Inr (Some [exGroup2])) (Inr None) (Inr (Some [exFile1])) True
              (toggleGroup ''g1'' exReady)) \<and>
   allExpanded
     (groups (snd (fetchGroups (Inr (Some [exGroup2])) (Inr None) (Inr (Some [exFile1]))
                     True (toggleGroup ''g1'' exReady))))"
proof -
  have a: "isConnected (toggleGroup ''g1'' exReady)"
    "\<not> allExpanded (groups (toggleGroup ''g1'' exReady))"
    by (simp_all add: toggleGroup_def exReady_eq exLoaded_eq allExpanded_def)
  have b: "groupsWithDetails (orEmpty (Some [exGroup2])) (orEmpty None)
             (orEmpty (Some [exFile1])) = [groupWith exGroup2 [] True]"
    by (simp add: groupsWithDetails_def orEmpty_def)
  note c = fetchGroups_idempotent
      [of "Inr (Some [exGroup2])" "Inr None" "Inr (Some [exFile1])" True
          "toggleGroup ''g1'' exReady" "Some [exGroup2]" None "Some [exFile1]"]
  from a(1) c have
    "groups (snd (fetchGroups (Inr (Some [exGroup2])) (Inr None) (Inr (Some [exFile1]))
                    True (toggleGroup ''g1'' exReady)))
       = groupsWithDetails (orEmpty (Some [exGroup2])) (orEmpty None)
           (orEmpty (Some [exFile1]))"
    by blast
  then have
    "groups (snd (fetchGroups (Inr (Some [exGroup2])) (Inr None) (Inr (Some [exFile1]))
                    True (toggleGroup ''g1'' exReady)))
       = [groupWith exGroup2 [] True]"
    by (simp only: b)
  with a c show ?thesis by blast
qed

section \<open>Creating a file\<close>

lemma addFile_rejects_empty:
  "newFileName st = [] \<or> newFileLink st = [] \<Longrightarrow> handleAddFile r c st = ([], st)"
  by (auto simp: handleAddFile_def truthy_def)

text \<open>
  Claim C2. A file name or link that is empty or only white space should make
  \<^verbatim>\<open>handleAddFile\<close> return at its guard. The guard tests \<^verbatim>\<open>!newFileName\<close> and
  \<^verbatim>\<open>!newFileLink\<close> without trimming (the guards of \<^verbatim>\<open>handleCreateGroup\<close> and
  \<^verbatim>\<open>handleCreateSubgroup\<close> trim): with the subgroup \<^verbatim>\<open>s1\<close> selected and the name typed as
  one space, the name is empty after trimming, and yet the insert is sent and, on
  success, the returned file is appended under \<^verbatim>\<open>s1\<close>.
\<close>

theorem addFile_blank_name_is_sent:
  "trim (newFileName (run [ClickSubgroup ''s1'', TypeFileName '' '',
                           TypeFileLink ''https://x/p''] exLoaded)) = [] \<and>
   fst (handleAddFile (Inr (exFile1\<lparr>f_id := ''f2'', f_name := '' ''\<rparr>)) True
          (run [ClickSubgroup ''s1'', TypeFileName '' '', TypeFileLink ''https://x/p'']
               exLoaded))
     = [Insert ''files''
          [(''name'', Some '' ''), (''link'', Some ''https://x/p''),
           (''subgroup_id'', Some ''s1''), (''user_id'', Some ''u1'')]] \<and>
   allFiles (groups (snd
     (handleAddFile (Inr (exFile1\<lparr>f_id := ''f2'', f_name := '' ''\<rparr>)) True
        (run [ClickSubgroup ''s1'', TypeFileName '' '', TypeFileLink ''https://x/p'']
             exLoaded))))
     = [exFile1, exFile1\<lparr>f_id := ''f2'', f_name := '' ''\<rparr>]"
  by (simp add: exLoaded_eq setSelectedSubgroup_def setNewFileName_def setNewFileLink_def
        handleAddFile_def truthy_def truthyOpt_def trim_def isWhiteSpace_def
        allFiles_def allSubgroups_def)

theorem addFile_blank_name_is_sent_witness:
  "calls (AddFile (Inr (exFile1\<lparr>f_id := ''f2'', f_name := '' ''\<rparr>)) True)
     (run [ClickSubgroup ''s1'', TypeFileName '' '', TypeFileLink ''https://x/p''] exLoaded)
     \<noteq> [] \<and>
   groups (step (AddFile (Inr (exFile1\<lparr>f_id := ''f2'', f_name := '' ''\<rparr>)) True)
     (run [ClickSubgroup ''s1'', TypeFileName '' '', TypeFileLink ''https://x/p''] exLoaded))
     \<noteq> groups exLoaded"
proof -
  have "allFiles (groups exLoaded) = [exFile1]"
    by (simp add: exLoaded_eq allFiles_def allSubgroups_def)
  with addFile_blank_name_is_sent show ?thesis
    by auto
qed

section \<open>Deleting a group\<close>

lemma deleteGroup_tree:
  "isConnected st \<Longrightarrow>
   groups (snd (handleDeleteGroup gid None c st)) =
   filter (\<lambda>g. g_id g \<noteq> gid) (groups st)"
  by (simp add: handleDeleteGroup_def Let_def)

lemma deleteGroup_removes_group:
  "isConnected st \<Longrightarrow> gid \<notin> g_id ` set (groups (snd (handleDeleteGroup gid None c st)))"
  by (auto simp: deleteGroup_tree)

lemma deleteGroup_keeps_others:
  "isConnected st \<Longrightarrow>
   allSubgroups (groups (snd (handleDeleteGroup gid None c st))) =
   concat (map subgroups (filter (\<lambda>g. g_id g \<noteq> gid) (groups st)))"
  by (simp add: deleteGroup_tree allSubgroups_def)

lemma deleteGroup_clears_selected_group:
  "isConnected st \<Longrightarrow> selectedGroup st = Some gid \<Longrightarrow>
   selectedGroup (snd (handleDeleteGroup gid None c st)) = None \<and>
   selectedSubgroup (snd (handleDeleteGroup gid None c st)) = None"
  by (simp add: handleDeleteGroup_def Let_def)

text \<open>
  Claim C1. Deleting a group should clear every selection that refers to a removed node.
  \<^verbatim>\<open>handleDeleteGroup\<close> clears the selected subgroup only together with the selected
  group, when the selected group is the deleted one. After the rows are loaded and the
  subgroup \<^verbatim>\<open>s1\<close> of the group \<^verbatim>\<open>g1\<close> is clicked (which selects no group), deleting
  \<^verbatim>\<open>g1\<close> removes \<^verbatim>\<open>g1\<close>, \<^verbatim>\<open>s1\<close> and its file from the tree, and the selected subgroup
  is still \<^verbatim>\<open>s1\<close>.
\<close>

theorem deleteGroup_keeps_subgroup_selection:
  "selectedGroup (run [ClickSubgroup ''s1''] exLoaded) = None \<and>
   selectedSubgroup (run [ClickSubgroup ''s1''] exLoaded) = Some ''s1'' \<and>
   map s_id (allSubgroups (groups (run [ClickSubgroup ''s1''] exLoaded))) = [''s1''] \<and>
   fst (handleDeleteGroup ''g1'' None True (run [ClickSubgroup ''s1''] exLoaded))
     = [Delete ''groups'' ''g1''] \<and>
   map g_id (groups (snd (handleDeleteGroup ''g1'' None True
                            (run [ClickSubgroup ''s1''] exLoaded)))) = [''g2''] \<and>
   allSubgroups (groups (snd (handleDeleteGroup ''g1'' None True
                                (run [ClickSubgroup ''s1''] exLoaded)))) = [] \<and>
   allFiles (groups (snd (handleDeleteGroup ''g1'' None True
                            (run [ClickSubgroup ''s1''] exLoaded)))) = [] \<and>
   selectedSubgroup (snd (handleDeleteGroup ''g1'' None True
                            (run [ClickSubgroup ''s1''] exLoaded))) = Some ''s1''"
  by (simp add: exLoaded_eq setSelectedSubgroup_def handleDeleteGroup_def
        allFiles_def allSubgroups_def)

section \<open>Assembly of the tree\<close>

lemma groupRow_groupWith: "groupRow (groupWith g ss e) = g"
  by (simp add: groupRow_def groupWith_def)

lemma subgroupRow_subgroupWith: "subgroupRow (subgroupWith s fs e) = s"
  by (simp add: subgroupRow_def subgroupWith_def)

lemma groupsWithDetails_fetchOrder: "fetchOrder gs ss fs (groupsWithDetails gs ss fs)"
proof -
  have "map groupRow (groupsWithDetails gs ss fs) = gs"
    by (simp add: groupsWithDetails_def o_def groupRow_groupWith)
  moreover have
    "map subgroupRow (subgroups g) = filter (\<lambda>s. s_group_id s = g_id g) ss \<and>
     list_all (\<lambda>s. files s = filter (\<lambda>f. f_subgroup_id f = s_id s) fs) (subgroups g)"
    if "g \<in> set (groupsWithDetails gs ss fs)" for g
  proof -
    from that obtain r where
      g: "g = groupWith r
                (map (\<lambda>s. subgroupWith s (filter (\<lambda>f. f_subgroup_id f = s_id s) fs) True)
                     (filter (\<lambda>s. s_group_id s = g_id r) ss))
                True"
      by (auto simp: groupsWithDetails_def)
    have id: "g_id g = g_id r" and sub: "subgroups g =
        map (\<lambda>s. subgroupWith s (filter (\<lambda>f. f_subgroup_id f = s_id s) fs) True)
            (filter (\<lambda>s. s_group_id s = g_id r) ss)"
      by (simp_all add: g groupWith_def)
    show ?thesis
      by (simp add: id sub o_def subgroupRow_subgroupWith list_all_iff)
         (simp add: subgroupWith_def)
  qed
  ultimately show ?thesis
    by (simp add: fetchOrder_def list_all_iff)
qed


lemma fetchOrder_ordered:
  assumes t: "fetchOrder gs ss fs t"
    and gs: "sorted_wrt (\<lambda>a b. le (g_created_at a) (g_created_at b)) gs"
    and ss: "sorted_wrt (\<lambda>a b. le (s_created_at a) (s_created_at b)) ss"
    and fs: "sorted_wrt (\<lambda>a b. le (f_created_at a) (f_created_at b)) fs"
  shows "orderedTree le t"
proof -
  from t gs have "sorted_wrt (\<lambda>a b. le (g_created_at a) (g_created_at b)) (map groupRow t)"
    by (simp add: fetchOrder_def)
  then have top: "sorted_wrt (\<lambda>a b. le (g_created_at a) (g_created_at b)) t"
    by (simp add: sorted_wrt_map groupRow_def)
  have "sorted_wrt (\<lambda>a b. le (s_created_at a) (s_created_at b)) (subgroups g) \<and>
        list_all (\<lambda>s. sorted_wrt (\<lambda>a b. le (f_created_at a) (f_created_at b)) (files s))
          (subgroups g)"
    if g: "g \<in> set t" for g
  proof -
    from t g have
      rows: "map subgroupRow (subgroups g) = filter (\<lambda>s. s_group_id s = g_id g) ss" and
      fls: "list_all (\<lambda>s. files s = filter (\<lambda>f. f_subgroup_id f = s_id s) fs) (subgroups g)"
      by (simp_all add: fetchOrder_def list_all_iff)
    from ss have "sorted_wrt (\<lambda>a b. le (s_created_at a) (s_created_at b))
                    (filter (\<lambda>s. s_group_id s = g_id g) ss)"
      by (rule sorted_wrt_filter)
    with rows have "sorted_wrt (\<lambda>a b. le (s_created_at a) (s_created_at b))
                      (map subgroupRow (subgroups g))"
      by simp
    then have "sorted_wrt (\<lambda>a b. le (s_created_at a) (s_created_at b)) (subgroups g)"
      by (simp add: sorted_wrt_map subgroupRow_def)
    moreover have "sorted_wrt (\<lambda>a b. le (f_created_at a) (f_created_at b)) (files s)"
      if "s \<in> set (subgroups g)" for s
    proof -
      from fls that have "files s = filter (\<lambda>f. f_subgroup_id f = s_id s) fs"
        by (simp add: list_all_iff)
      with fs show ?thesis
        by (simp add: sorted_wrt_filter)
    qed
    ultimately show ?thesis
      by (simp add: list_all_iff)
  qed
  with top show ?thesis
    by (simp add: orderedTree_def list_all_iff)
qed

section \<open>Placement by the create handlers\<close>

lemma createGroup_appends:
  "truthy (trim (newGroupName st)) \<Longrightarrow> truthyOpt (userId st) \<Longrightarrow> isConnected st \<Longrightarrow>
   groups (snd (handleCreateGroup (Inr d) c st)) = groups st @ [groupWith d [] True]"
  by (simp add: handleCreateGroup_def Let_def)

lemma createSubgroup_appends:
  assumes "truthy (trim (newSubgroupName st))" "truthyOpt (userId st)" "isConnected st"
  shows "list_all2 (subgroupAppended gid (subgroupWith d [] True)) (groups st)
           (groups (snd (handleCreateSubgroup gid (Inr d) c st)))"
  using assms
  by (simp add: handleCreateSubgroup_def Let_def, intro list_all2_map_self)
     (simp add: subgroupAppended_def)

lemma addFile_appends:
  assumes "truthyOpt (selectedSubgroup st)" "truthy (newFileName st)"
    "truthy (newFileLink st)" "truthyOpt (userId st)" "isConnected st"
  shows "list_all2 (fileAppended (selectedSubgroup st) d) (groups st)
           (groups (snd (handleAddFile (Inr d) c st)))"
proof -
  have "fileAppended (selectedSubgroup st) d g
          (g\<lparr>subgroups :=
               map (\<lambda>subgroup.
                      if Some (s_id subgroup) = selectedSubgroup st
                      then subgroup\<lparr>files := files subgroup @ [d]\<rparr>
                      else subgroup)
                   (subgroups g)\<rparr>)" for g
    unfolding fileAppended_def
    by (simp, intro list_all2_map_self) simp
  with assms show ?thesis
    by (simp add: handleAddFile_def Let_def, intro list_all2_map_self)
qed

section \<open>Order of the children\<close>

text \<open>
  Claim C6. After a load the tree holds the groups, the subgroups of each group and the
  files of each subgroup in the order in which the fetch returned them, so when the three
  fetched lists ascend in creation time (for any order on time stamps), so do the
  children of every node. A successful create appends: \<^verbatim>\<open>handleCreateGroup\<close> puts the
  new group after all groups, \<^verbatim>\<open>handleCreateSubgroup\<close> puts the new subgroup after the
  subgroups of the group with the given id, \<^verbatim>\<open>handleAddFile\<close> puts the new file after the
  files of the selected subgroup, and all existing children keep their places.
\<close>

theorem children_in_fetch_order:
  "fetchOrder gs ss fs (groupsWithDetails gs ss fs) \<and>
   (sorted_wrt (\<lambda>a b. le (g_created_at a) (g_created_at b)) gs \<and>
    sorted_wrt (\<lambda>a b. le (s_created_at a) (s_created_at b)) ss \<and>
    sorted_wrt (\<lambda>a b. le (f_created_at a) (f_created_at b)) fs \<longrightarrow>
      orderedTree le (groupsWithDetails gs ss fs)) \<and>
   (truthy (trim (newGroupName st)) \<and> truthyOpt (userId st) \<and> isConnected st \<longrightarrow>
      groups (snd (handleCreateGroup (Inr g) c st)) = groups st @ [groupWith g [] True]) \<and>
   (truthy (trim (newSubgroupName st)) \<and> truthyOpt (userId st) \<and> isConnected st \<longrightarrow>
      list_all2 (subgroupAppended gid (subgroupWith s [] True)) (groups st)
        (groups (snd (handleCreateSubgroup gid (Inr s) c st)))) \<and>
   (truthyOpt (selectedSubgroup st) \<and> truthy (newFileName st) \<and>
    truthy (newFileLink st) \<and> truthyOpt (userId st) \<and> isConnected st \<longrightarrow>
      list_all2 (fileAppended (selectedSubgroup st) f) (groups st)
        (groups (snd (handleAddFile (Inr f) c st))))"
  using groupsWithDetails_fetchOrder [of gs ss fs]
    fetchOrder_ordered [of gs ss fs "groupsWithDetails gs ss fs" le]
    createGroup_appends [of st g c]
    createSubgroup_appends [of st gid s c]
    addFile_appends [of st f c]
  by blast

theorem children_in_fetch_order_witness:
  "\<not> sorted_wrt (\<lambda>a b. stampLe (g_created_at a) (g_created_at b))
       [exGroup2, exGroup1] \<and>
   sorted_wrt (\<lambda>a b. stampLe (g_created_at a) (g_created_at b))
     [exGroup1, exGroup2] \<and>
   sorted_wrt (\<lambda>a b. stampLe (s_created_at a) (s_created_at b))
     [exSubgroup1, exOrphanSubgroup] \<and>
   sorted_wrt (\<lambda>a b. stampLe (f_created_at a) (f_created_at b))
     [exFile1, exOrphanFile] \<and>
   orderedTree stampLe
     (groupsWithDetails [exGroup1, exGroup2] [exSubgroup1, exOrphanSubgroup]
        [exFile1, exOrphanFile]) \<and>
   groups (snd (handleCreateGroup (Inr exGroup2) True exReady))
     = groups exReady @ [groupWith exGroup2 [] True] \<and>
   map (map s_id \<circ> subgroups)
     (groups (snd (handleCreateSubgroup ''g1'' (Inr exOrphanSubgroup) True exReady)))
     = [[''s1'', ''s9''], []] \<and>
   map (map (map f_id \<circ> files) \<circ> subgroups)
     (groups (snd (handleAddFile (Inr exOrphanFile) True exReady)))
     = [[[''f1'', ''f9'']], []] \<and>
   list_all2 (subgroupAppended ''g1'' (subgroupWith exOrphanSubgroup [] True))
     (groups exReady)
     (groups (snd (handleCreateSubgroup ''g1'' (Inr exOrphanSubgroup) True exReady))) \<and>
   list_all2 (fileAppended (selectedSubgroup exReady) exOrphanFile) (groups exReady)
     (groups (snd (handleAddFile (Inr exOrphanFile) True exReady)))"
proof -
  have sorted:
    "sorted_wrt (\<lambda>a b. stampLe (g_created_at a) (g_created_at b))
       [exGroup1, exGroup2]"
    "sorted_wrt (\<lambda>a b. stampLe (s_created_at a) (s_created_at b))
       [exSubgroup1, exOrphanSubgroup]"
    "sorted_wrt (\<lambda>a b. stampLe (f_created_at a) (f_created_at b))
       [exFile1, exOrphanFile]"
    by (simp_all add: ex_defs)
  have strict:
    "\<not> sorted_wrt (\<lambda>a b. stampLe (g_created_at a) (g_created_at b))
         [exGroup2, exGroup1]"
    by (simp add: ex_defs)
  have shape:
    "map (map s_id \<circ> subgroups)
       (groups (snd (handleCreateSubgroup ''g1'' (Inr exOrphanSubgroup) True exReady)))
       = [[''s1'', ''s9''], []]"
    "map (map (map f_id \<circ> files) \<circ> subgroups)
       (groups (snd (handleAddFile (Inr exOrphanFile) True exReady)))
       = [[[''f1'', ''f9'']], []]"
    using exReady_guards
    by (simp_all add: handleCreateSubgroup_def handleAddFile_def Let_def)
       (simp_all add: exReady_eq exLoaded_eq subgroupWith_def ex_defs)
  from strict sorted shape exReady_guards
    children_in_fetch_order
      [of "[exGroup1, exGroup2]" "[exSubgroup1, exOrphanSubgroup]"
          "[exFile1, exOrphanFile]" stampLe exReady exGroup2 True
          "''g1''" exOrphanSubgroup exOrphanFile]
  show ?thesis by blast
qed

section \<open>Children whose parent is not loaded\<close>



section \<open>The nesting is kept by every handler\<close>














section \<open>Creating a group, a subgroup under it and a file under the subgroup\<close>



section \<open>The nesting matches the parent references\<close>



end
